theory Spec2Isabelle
  imports Complex_Main "HOL-Library.Sublist"
begin

section \<open>Python strings and integers\<close>

text \<open>
  Python strings are modelled as \<open>string\<close>; a character outside ASCII is written as the
  bytes of its UTF-8 encoding. Digits are the ASCII digits and whitespace is the ASCII
  whitespace that \<open>str.strip\<close> and \<open>int\<close> skip. Python integers are unbounded; the
  interpreter's limit on the number of digits of a conversion is not modelled.
\<close>

definition is_digit :: "char \<Rightarrow> bool" where
  "is_digit c = (48 \<le> (of_char c :: nat) \<and> (of_char c :: nat) \<le> 57)"

definition is_space :: "char \<Rightarrow> bool" where
  "is_space c = (c \<in> {CHR 0x09, CHR 0x0A, CHR 0x0B, CHR 0x0C, CHR 0x0D,
                       CHR 0x1C, CHR 0x1D, CHR 0x1E, CHR 0x1F, CHR 0x20})"

definition digit_char :: "nat \<Rightarrow> char" where
  "digit_char d = char_of (48 + d)"

definition digit_val :: "char \<Rightarrow> nat" where
  "digit_val c = of_char c - 48"

text \<open>\<open>str(n)\<close> for a natural number: its decimal digits, no leading zero.\<close>

fun str_nat :: "nat \<Rightarrow> string" where
  "str_nat n = (if n < 10 then [digit_char n] else str_nat (n div 10) @ [digit_char (n mod 10)])"

declare str_nat.simps [simp del]

text \<open>\<open>str(i)\<close> for a Python int.\<close>

definition py_str_int :: "int \<Rightarrow> string" where
  "py_str_int i = (if i < 0 then CHR ''-'' # str_nat (nat (- i)) else str_nat (nat i))"

text \<open>The value of a string of decimal digits, leading zeros allowed.\<close>

definition nat_of_digits :: "string \<Rightarrow> nat" where
  "nat_of_digits ds = foldl (\<lambda>acc c. 10 * acc + digit_val c) 0 ds"

text \<open>\<open>s.strip()\<close>.\<close>

definition py_strip :: "string \<Rightarrow> string" where
  "py_strip s = rev (dropWhile is_space (rev (dropWhile is_space s)))"

text \<open>
  The digit part of an integer literal accepted by \<open>int(s)\<close>: digits, with single
  underscores allowed between two digits.
\<close>

fun digits_ok :: "string \<Rightarrow> bool" where
  "digits_ok [] = False"
| "digits_ok [c] = is_digit c"
| "digits_ok (c # d # cs) =
     (is_digit c \<and> (if d = CHR ''_'' then digits_ok cs else digits_ok (d # cs)))"

definition digits_value :: "string \<Rightarrow> nat option" where
  "digits_value ds =
     (if digits_ok ds then Some (nat_of_digits (filter (\<lambda>c. c \<noteq> CHR ''_'') ds)) else None)"

text \<open>\<open>int(s)\<close>: \<open>None\<close> is the \<open>ValueError\<close>.\<close>

definition py_int :: "string \<Rightarrow> int option" where
  "py_int s =
     (case py_strip s of
        [] \<Rightarrow> None
      | c # cs \<Rightarrow>
          if c = CHR ''-'' then map_option (\<lambda>n. - int n) (digits_value cs)
          else if c = CHR ''+'' then map_option int (digits_value cs)
          else map_option int (digits_value (c # cs)))"

text \<open>\<open>sub in s\<close> for strings.\<close>

fun py_in :: "string \<Rightarrow> string \<Rightarrow> bool" where
  "py_in sub [] = (sub = [])"
| "py_in sub (c # cs) = (prefix sub (c # cs) \<or> py_in sub cs)"

text \<open>
  \<open>re.search(r"\d+", s)\<close>: the first maximal run of digits, \<open>None\<close> when \<open>s\<close> has no
  digit.
\<close>

definition re_search_digits :: "string \<Rightarrow> string option" where
  "re_search_digits s =
     (let ds = takeWhile is_digit (dropWhile (\<lambda>c. \<not> is_digit c) s)
      in if ds = [] then None else Some ds)"

section \<open>The run-number store (core/utils.py)\<close>

text \<open>
  The file system is a map from paths to file contents. \<open>open(p, "w")\<close> creates or
  truncates the file; \<open>open(p, "r")\<close> on a missing file raises, which
  \<open>load_run_number\<close> catches together with the \<open>ValueError\<close> of \<open>int\<close>.
\<close>

type_synonym files = "string \<rightharpoonup> string"

definition run_number_txt :: string where
  "run_number_txt = ''run_number.txt''"

definition save_run_number :: "int \<Rightarrow> string \<Rightarrow> files \<Rightarrow> files" where
  "save_run_number run_num file_path fs = fs(file_path \<mapsto> py_str_int run_num)"

definition load_run_number :: "string \<Rightarrow> files \<Rightarrow> int" where
  "load_run_number file_path fs =
     (case fs file_path of
        None \<Rightarrow> 0
      | Some content \<Rightarrow> (case py_int (py_strip content) of None \<Rightarrow> 0 | Some n \<Rightarrow> n))"


section \<open>The parsed document (bs4)\<close>

text \<open>
  \<open>BeautifulSoup(html_text, "html.parser")\<close> is a library call; the tree it builds is
  the input of the functions below, and the parser itself is a parameter
  \<open>html_parser\<close>. A \<open>Tag\<close> has a name, attributes, the list of its classes (bs4
  keeps \<open>class\<close> as a list) and its contents.
\<close>

datatype node =
    NavigableString string
  | Tag string "(string \<times> string) list" "string list" "node list"

fun children :: "node \<Rightarrow> node list" where
  "children (NavigableString s) = []"
| "children (Tag n a c ch) = ch"

text \<open>The descendants of a node in document order.\<close>

fun descendants :: "node \<Rightarrow> node list" where
  "descendants (NavigableString s) = []"
| "descendants (Tag n a c ch) = concat (map (\<lambda>x. x # descendants x) ch)"

text \<open>\<open>el.text\<close>: the strings below \<open>el\<close>, concatenated.\<close>

fun get_text :: "node \<Rightarrow> string" where
  "get_text (NavigableString s) = s"
| "get_text (Tag n a c ch) = concat (map get_text ch)"

text \<open>The simple selectors \<open>#i\<close> and \<open>t.cls\<close>, and \<open>find(t, {k: v})\<close>.\<close>

fun has_id :: "string \<Rightarrow> node \<Rightarrow> bool" where
  "has_id i (NavigableString s) = False"
| "has_id i (Tag n a c ch) = (map_of a ''id'' = Some i)"

fun has_tag_class :: "string \<Rightarrow> string \<Rightarrow> node \<Rightarrow> bool" where
  "has_tag_class t cls (NavigableString s) = False"
| "has_tag_class t cls (Tag n a c ch) = (n = t \<and> cls \<in> set c)"

fun has_tag_attr :: "string \<Rightarrow> string \<Rightarrow> string \<Rightarrow> node \<Rightarrow> bool" where
  "has_tag_attr t k v (NavigableString s) = False"
| "has_tag_attr t k v (Tag n a c ch) = (n = t \<and> map_of a k = Some v)"

definition select_one_id :: "string \<Rightarrow> node \<Rightarrow> node option" where
  "select_one_id i soup = find (has_id i) (descendants soup)"

definition select_one_tag_class :: "string \<Rightarrow> string \<Rightarrow> node \<Rightarrow> node option" where
  "select_one_tag_class t cls el = find (has_tag_class t cls) (descendants el)"

definition find_tag_attr :: "string \<Rightarrow> string \<Rightarrow> string \<Rightarrow> node \<Rightarrow> node option" where
  "find_tag_attr t k v soup = find (has_tag_attr t k v) (descendants soup)"

text \<open>
  \<open>select("#i t.cls")\<close>: the elements \<open>t.cls\<close> that have an ancestor with id \<open>i\<close>, in
  document order. \<open>inside\<close> says that such an ancestor has been passed.
\<close>

fun select_below :: "string \<Rightarrow> string \<Rightarrow> string \<Rightarrow> bool \<Rightarrow> node \<Rightarrow> node list" where
  "select_below i t cls inside (NavigableString s) = []"
| "select_below i t cls inside (Tag n a c ch) =
     (if inside \<and> n = t \<and> cls \<in> set c then [Tag n a c ch] else []) @
     concat (map (select_below i t cls (inside \<or> map_of a ''id'' = Some i)) ch)"

definition select_id_tag_class :: "string \<Rightarrow> string \<Rightarrow> string \<Rightarrow> node \<Rightarrow> node list" where
  "select_id_tag_class i t cls soup =
     concat (map (select_below i t cls (has_id i soup)) (children soup))"

section \<open>VHSBerlinScout.parse_results (scouts/vhs_berlin.py)\<close>

text \<open>
  A Python dict is an association list in insertion order. The values of the dict that
  \<open>parse_results\<close> returns are booleans, an int and the list of course dicts.
\<close>

type_synonym course = "(string \<times> string) list"

datatype pyval = PBool bool | PInt int | PCourses "course list"

type_synonym parsed = "(string \<times> pyval) list"

text \<open>
  \<open>safe_text(sel)\<close> for the selector \<open>td.cls\<close>. Its \<open>except\<close> branch also returns
  \<open>"N/A"\<close>; \<open>select_one\<close> does not raise on these selectors.
\<close>

definition safe_text :: "node \<Rightarrow> string \<Rightarrow> string" where
  "safe_text row cls =
     (case select_one_tag_class ''td'' cls row of
        None \<Rightarrow> ''N/A''
      | Some el \<Rightarrow> py_strip (get_text el))"

definition parse_row :: "node \<Rightarrow> course" where
  "parse_row row =
     [(''district'', safe_text row ''DataGridItemDistrict''),
      (''course_title'', safe_text row ''DataGridItemCourseTitle''),
      (''free_places'', safe_text row ''DataGridItemPlaces'')]"

definition no_courses_message :: string where
  "no_courses_message = ''Zu Ihrer Suche wurden keine Kurse gefunden.''"

text \<open>
  The three lookups of \<open>parse_results\<close>: \<open>error_el and "..." in error_el.text\<close>,
  \<open>not title_el or "Kursliste" not in title_el.text\<close>, and \<open>count_text\<close>.
\<close>

definition has_no_courses_message :: "node \<Rightarrow> bool" where
  "has_no_courses_message soup =
     (case select_one_id ''ctl00_Content_ErrorMessage1_lblError'' soup of
        None \<Rightarrow> False
      | Some error_el \<Rightarrow> py_in no_courses_message (get_text error_el))"

definition lacks_list_title :: "node \<Rightarrow> bool" where
  "lacks_list_title soup =
     (case select_one_id ''ctl00_Content_lblTitle'' soup of
        None \<Rightarrow> True
      | Some title_el \<Rightarrow> \<not> py_in ''Kursliste'' (get_text title_el))"

definition count_text :: "node \<Rightarrow> string" where
  "count_text soup =
     (case select_one_id ''ctl00_Content_lblMessage1All'' soup of
        None \<Rightarrow> []
      | Some count_el \<Rightarrow> py_strip (get_text count_el))"

definition course_rows :: "node \<Rightarrow> node list" where
  "course_rows soup = select_id_tag_class ''ctl00_Content_ILDataGrid1'' ''tr'' ''DataGridItem'' soup"

definition parse_results :: "(string \<Rightarrow> node) \<Rightarrow> string \<Rightarrow> parsed" where
  "parse_results html_parser html_text =
     (let soup = html_parser html_text
      in if has_no_courses_message soup
         then [(''success'', PBool False), (''has_courses'', PBool False)]
         else if lacks_list_title soup
         then [(''success'', PBool False), (''has_courses'', PBool False)]
         else
           let m = re_search_digits (count_text soup);
               course_count = (case m of None \<Rightarrow> 0 | Some ds \<Rightarrow> int (nat_of_digits ds));
               rows = course_rows soup;
               courses = map parse_row rows
           in [(''success'', PBool True),
               (''has_courses'', PBool True),
               (''course_count'', PInt course_count),
               (''courses'', PCourses courses)])"

section \<open>Exceptions\<close>

text \<open>
  The exceptions that a search attempt can raise: the \<open>Exception\<close> of
  \<open>perform_search\<close>, the \<open>KeyError\<close> of a subscript, the \<open>HTTPError\<close> of
  \<open>raise_for_status\<close>, and whatever the transport raises. \<open>py_str_exn\<close> is \<open>str(e)\<close>.
\<close>

datatype exn = Exception string | KeyError string | HTTPError string | RequestException string

fun py_str_exn :: "exn \<Rightarrow> string" where
  "py_str_exn (Exception m) = m"
| "py_str_exn (KeyError k) = [CHR 0x27] @ k @ [CHR 0x27]"
| "py_str_exn (HTTPError m) = m"
| "py_str_exn (RequestException m) = m"

section \<open>random_delay (core/utils.py)\<close>

text \<open>
  Python floats are modelled as real numbers. \<open>random.uniform(a, b)\<close> is
  \<open>a + (b - a) * random()\<close>, where the draw \<open>random()\<close> lies in \<open>[0, 1)\<close>; the draw is
  the parameter \<open>u\<close>.
\<close>

definition uniform :: "real \<Rightarrow> real \<Rightarrow> real \<Rightarrow> real" where
  "uniform a b u = a + (b - a) * u"

definition random_delay :: "real \<Rightarrow> real \<Rightarrow> real" where
  "random_delay base_seconds u =
     (let jitter = base_seconds * (3 / 10);
          delay = base_seconds + uniform (- jitter) jitter u
      in max 0 delay)"

section \<open>BaseScout.run (core/base_scout.py)\<close>

text \<open>
  The loop calls hooks that a scout overrides and functions with effects. Each call that
  \<open>run\<close> makes is an event of a trace, in the order of the calls: \<open>log(msg)\<close>,
  \<open>self.notify(msg)\<close>, \<open>self.sleep(seconds)\<close>, \<open>self.perform_search()\<close>,
  \<open>self.handle_success(...)\<close> and \<open>self.handle_failure(...)\<close>. What a callee does inside
  is part of its event: \<open>Sleep seconds\<close> stands for the draw of the jittered delay, the
  line \<open>"Waiting ... seconds..."\<close> that \<open>sleep\<close> logs and the blocking itself, and a
  handler event for the messages the handler sends. \<open>perform_search\<close> acts on a world
  \<open>'w\<close> (the network and the session) and returns markup \<open>'c\<close> or raises;
  \<open>parse_results\<close> returns a dict or raises.
\<close>

datatype event =
    Log string
  | Notify string
  | Sleep int
  | PerformSearch
  | HandleSuccess int parsed
  | HandleFailure int int

fun truthy :: "pyval \<Rightarrow> bool" where
  "truthy (PBool b) = b"
| "truthy (PInt i) = (i \<noteq> 0)"
| "truthy (PCourses cs) = (cs \<noteq> [])"

text \<open>\<open>parsed.get("success", False)\<close> as a condition.\<close>

definition get_success :: "parsed \<Rightarrow> bool" where
  "get_success parsed = (case map_of parsed ''success'' of None \<Rightarrow> False | Some v \<Rightarrow> truthy v)"

text \<open>\<open>results\<close> as a condition: \<open>None\<close> and the empty dict are false.\<close>

definition truthy_results :: "parsed option \<Rightarrow> bool" where
  "truthy_results results = (case results of None \<Rightarrow> False | Some d \<Rightarrow> d \<noteq> [])"

definition rocket :: string where
  "rocket = [CHR 0xF0, CHR 0x9F, CHR 0x9A, CHR 0x80]"

definition warning_sign :: string where
  "warning_sign = [CHR 0xE2, CHR 0x9A, CHR 0xA0, CHR 0xEF, CHR 0xB8, CHR 0x8F]"

definition start_message :: "int \<Rightarrow> string" where
  "start_message run_number = rocket @ '' Starting run #'' @ py_str_int run_number"

definition error_msg :: "nat \<Rightarrow> exn \<Rightarrow> string" where
  "error_msg attempt e =
     ''[Attempt #'' @ str_nat attempt @ ''] Error during search: '' @ py_str_exn e"

definition error_notification :: "nat \<Rightarrow> exn \<Rightarrow> string" where
  "error_notification attempt e =
     warning_sign @ '' Error during search (attempt #'' @ str_nat attempt @ ''):'' @
     [CHR 0x0A, CHR 0x60] @ py_str_exn e @ [CHR 0x60]"

text \<open>
  The body of the \<open>try\<close> of one attempt: the search, then the parse of what it returned.
\<close>

definition try_attempt ::
  "('w \<Rightarrow> (exn + 'c) \<times> 'w) \<Rightarrow> ('c \<Rightarrow> exn + parsed) \<Rightarrow> 'w \<Rightarrow> (exn + parsed) \<times> 'w" where
  "try_attempt perform_search parse w =
     (case perform_search w of
        (Inl e, w') \<Rightarrow> (Inl e, w')
      | (Inr search_results, w') \<Rightarrow> (parse search_results, w'))"

text \<open>
  The inner loop \<open>while attempt < max_attempts and not results\<close>. The result is
  \<open>results\<close>, \<open>attempt\<close>, the world and the trace when the loop is left; the \<open>break\<close>
  leaves it without the \<open>sleep\<close>.
\<close>

function search_loop ::
  "('w \<Rightarrow> (exn + 'c) \<times> 'w) \<Rightarrow> ('c \<Rightarrow> exn + parsed) \<Rightarrow> int \<Rightarrow> int \<Rightarrow>
   nat \<Rightarrow> parsed option \<Rightarrow> 'w \<Rightarrow> event list \<Rightarrow> parsed option \<times> nat \<times> 'w \<times> event list" where
  "search_loop perform_search parse max_attempts short_wait attempt results w tr =
     (if int attempt < max_attempts \<and> \<not> truthy_results results then
        (case try_attempt perform_search parse w of
           (Inl e, w') \<Rightarrow>
             search_loop perform_search parse max_attempts short_wait (attempt + 1) results w'
               (tr @ [PerformSearch,
                      Log (error_msg (attempt + 1) e),
                      Notify (error_notification (attempt + 1) e),
                      Sleep short_wait])
         | (Inr parsed, w') \<Rightarrow>
             if get_success parsed
             then (Some parsed, attempt + 1, w', tr @ [PerformSearch])
             else search_loop perform_search parse max_attempts short_wait (attempt + 1) results w'
                    (tr @ [PerformSearch, Sleep short_wait]))
      else (results, attempt, w, tr))"
  by pat_completeness auto
termination
  by (relation "measure (\<lambda>(ps, pr, m, sw, attempt, r, w, tr). nat (m - int attempt))") auto

declare search_loop.simps [simp del]

text \<open>
  One pass of the outer \<open>while True\<close>: the state is the run number, the files, the world
  and the trace.
\<close>

definition run_once ::
  "('w \<Rightarrow> (exn + 'c) \<times> 'w) \<Rightarrow> ('c \<Rightarrow> exn + parsed) \<Rightarrow> int \<Rightarrow> int \<Rightarrow> int \<Rightarrow>
   int \<times> files \<times> 'w \<times> event list \<Rightarrow> int \<times> files \<times> 'w \<times> event list" where
  "run_once perform_search parse max_attempts short_wait long_wait st =
     (case st of (run_number0, fs0, w0, tr0) \<Rightarrow>
        let run_number = run_number0 + 1;
            fs = save_run_number run_number run_number_txt fs0;
            tr1 = tr0 @ [Log (start_message run_number), Notify (start_message run_number)]
        in case search_loop perform_search parse max_attempts short_wait 0 None w0 tr1 of
             (results, attempt, w, tr) \<Rightarrow>
               (case results of
                  Some r \<Rightarrow>
                    if r \<noteq> []
                    then (run_number, fs, w, tr @ [HandleSuccess run_number r, Sleep long_wait])
                    else (run_number, fs, w,
                          tr @ [HandleFailure run_number max_attempts, Sleep long_wait])
                | None \<Rightarrow>
                    (run_number, fs, w,
                     tr @ [HandleFailure run_number max_attempts, Sleep long_wait])))"

text \<open>
  \<open>run\<close> never returns; \<open>run_passes n\<close> is the state after \<open>n\<close> passes of its loop,
  and \<open>run\<close> starts it from the stored run number.
\<close>

fun run_passes ::
  "nat \<Rightarrow> ('w \<Rightarrow> (exn + 'c) \<times> 'w) \<Rightarrow> ('c \<Rightarrow> exn + parsed) \<Rightarrow> int \<Rightarrow> int \<Rightarrow> int \<Rightarrow>
   int \<times> files \<times> 'w \<times> event list \<Rightarrow> int \<times> files \<times> 'w \<times> event list" where
  "run_passes 0 perform_search parse max_attempts short_wait long_wait st = st"
| "run_passes (Suc n) perform_search parse max_attempts short_wait long_wait st =
     run_passes n perform_search parse max_attempts short_wait long_wait
       (run_once perform_search parse max_attempts short_wait long_wait st)"

definition run ::
  "nat \<Rightarrow> ('w \<Rightarrow> (exn + 'c) \<times> 'w) \<Rightarrow> ('c \<Rightarrow> exn + parsed) \<Rightarrow> int \<Rightarrow> int \<Rightarrow> int \<Rightarrow>
   files \<Rightarrow> 'w \<Rightarrow> int \<times> files \<times> 'w \<times> event list" where
  "run n perform_search parse max_attempts short_wait long_wait fs w =
     run_passes n perform_search parse max_attempts short_wait long_wait
       (load_run_number run_number_txt fs, fs, w, [])"


section \<open>VHSBerlinScout.perform_search (scouts/vhs_berlin.py)\<close>

text \<open>
  A response of the \<open>requests\<close> library: \<open>location\<close> is \<open>headers.get("Location")\<close>.
  The session's \<open>get(url, allow_redirects)\<close> and \<open>post(url, data, allow_redirects)\<close>
  act on the world (the server and the cookie jar) and return a response or raise.
\<close>

record response =
  status_code :: int
  resp_text :: string
  location :: "string option"
  reason :: string
  resp_url :: string

type_synonym 'w session_get = "'w \<Rightarrow> string \<Rightarrow> bool \<Rightarrow> (exn + response) \<times> 'w"

type_synonym 'w session_post =
  "'w \<Rightarrow> string \<Rightarrow> (string \<times> string) list \<Rightarrow> bool \<Rightarrow> (exn + response) \<times> 'w"

text \<open>\<open>r.raise_for_status()\<close>: the exception it raises, if any.\<close>

definition raise_for_status :: "response \<Rightarrow> exn option" where
  "raise_for_status r =
     (if 400 \<le> status_code r \<and> status_code r < 500
      then Some (HTTPError (py_str_int (status_code r) @ '' Client Error: '' @ reason r @
                            '' for url: '' @ resp_url r))
      else if 500 \<le> status_code r \<and> status_code r < 600
      then Some (HTTPError (py_str_int (status_code r) @ '' Server Error: '' @ reason r @
                            '' for url: '' @ resp_url r))
      else None)"

record config =
  URL :: string
  KEYWORD_SELECTION_VALUE :: string

definition hidden_input_names :: "string list" where
  "hidden_input_names =
     [''__VIEWSTATE'', ''__VIEWSTATEGENERATOR'', ''__LASTFOCUS'',
      ''__EVENTTARGET'', ''__EVENTARGUMENT'', ''__SCROLLPOSITIONX'',
      ''__SCROLLPOSITIONY'']"

text \<open>\<open>tag["value"]\<close>.\<close>

fun tag_value :: "node \<Rightarrow> exn + string" where
  "tag_value (NavigableString s) = Inl (KeyError ''value'')"
| "tag_value (Tag n a c ch) =
     (case map_of a ''value'' of None \<Rightarrow> Inl (KeyError ''value'') | Some v \<Rightarrow> Inr v)"

fun hidden_inputs_loop ::
  "node \<Rightarrow> string list \<Rightarrow> (string \<times> string) list \<Rightarrow> exn + (string \<times> string) list" where
  "hidden_inputs_loop soup [] inputs = Inr inputs"
| "hidden_inputs_loop soup (name # names) inputs =
     (case find_tag_attr ''input'' ''name'' name soup of
        None \<Rightarrow> hidden_inputs_loop soup names (inputs @ [(name, [])])
      | Some tag \<Rightarrow>
          (case tag_value tag of
             Inl e \<Rightarrow> Inl e
           | Inr v \<Rightarrow> hidden_inputs_loop soup names (inputs @ [(name, v)])))"

definition get_hidden_inputs :: "node \<Rightarrow> exn + (string \<times> string) list" where
  "get_hidden_inputs soup = hidden_inputs_loop soup hidden_input_names []"

text \<open>\<open>{k: d[k] for k in ks}\<close>, in the order of \<open>ks\<close>; a missing key raises.\<close>

fun lookup_keys :: "(string \<times> string) list \<Rightarrow> string list \<Rightarrow> exn + (string \<times> string) list" where
  "lookup_keys d [] = Inr []"
| "lookup_keys d (k # ks) =
     (case map_of d k of
        None \<Rightarrow> Inl (KeyError k)
      | Some v \<Rightarrow> (case lookup_keys d ks of Inl e \<Rightarrow> Inl e | Inr kvs \<Rightarrow> Inr ((k, v) # kvs)))"

definition build_search_payload ::
  "config \<Rightarrow> (string \<times> string) list \<Rightarrow> exn + (string \<times> string) list" where
  "build_search_payload cfg hidden_inputs =
     (case lookup_keys hidden_inputs
             [''__LASTFOCUS'', ''__EVENTTARGET'', ''__EVENTARGUMENT'', ''__VIEWSTATE'',
              ''__VIEWSTATEGENERATOR'', ''__SCROLLPOSITIONX'', ''__SCROLLPOSITIONY''] of
        Inl e \<Rightarrow> Inl e
      | Inr hidden \<Rightarrow>
          Inr (hidden @
            [(''ctl00$Content$btnSearch'', ''Suchen''),
             (''ctl00$Content$SimpleSearch1$SimpleSearchBox$txtSearchTerm'', []),
             (''ctl00$Content$KeywordsList1$cmbKeyword'', KEYWORD_SELECTION_VALUE cfg),
             (''ctl00$Content$AreaList1$cmbDistricts'', ''0''),
             (''ctl00$Content$AdvancedSearch1$SearchBox1$txtSearchTerm'', []),
             (''ctl00$Content$KeywordsListAdvanced1$cmbKeyword'', ''-1''),
             (''ctl00$Content$AreaListAdvanced1$CheckBoxListDistricts$0'', ''0''),
             (''ctl00$Content$LyceumSelection1$cmbLyceum'', ''0''),
             (''ctl00$Content$TimeDependingInput1$cmbTimeStructur'', ''0''),
             (''ctl00$Content$TimeDependingInput1$txtCourseInstructor'', []),
             (''ctl00$Content$TimeDependingInput1$txtBeginFrom'', []),
             (''ctl00$Content$TimeDependingInput1$txtEndTo'', []),
             (''ctl00$Content$CourseNumber1$searchBoxCourseNr$txtSearchTerm'', [])]))"

definition base_origin :: string where
  "base_origin = ''https://www.vhsit.berlin.de''"

text \<open>
  \<open>not loc\<close> for \<open>loc = headers.get("Location")\<close> holds when the header is missing
  and when it is empty.
\<close>

definition follow_redirects ::
  "'w session_get \<Rightarrow> 'w \<Rightarrow> response \<Rightarrow> (exn + string) \<times> 'w" where
  "follow_redirects get w initial_response =
     (if status_code initial_response = 200 then (Inr (resp_text initial_response), w)
      else case location initial_response of
        None \<Rightarrow> (Inr (resp_text initial_response), w)
      | Some loc \<Rightarrow>
          if loc = [] then (Inr (resp_text initial_response), w)
          else (case get w (base_origin @ loc) False of
             (Inl e, w1) \<Rightarrow> (Inl e, w1)
           | (Inr r1, w1) \<Rightarrow>
               if status_code r1 = 200 then (Inr (resp_text r1), w1)
               else (case location r1 of
                  None \<Rightarrow> (Inr (resp_text r1), w1)
                | Some loc2 \<Rightarrow>
                    if loc2 = [] then (Inr (resp_text r1), w1)
                    else (case get w1 (base_origin @ loc2) True of
                       (Inl e, w2) \<Rightarrow> (Inl e, w2)
                     | (Inr r2, w2) \<Rightarrow>
                         (case raise_for_status r2 of
                            Some e \<Rightarrow> (Inl e, w2)
                          | None \<Rightarrow> (Inr (resp_text r2), w2))))))"

definition unexpected_post_status :: "int \<Rightarrow> exn" where
  "unexpected_post_status code =
     Exception (''Unexpected POST response status: '' @ py_str_int code)"

definition perform_search ::
  "'w session_get \<Rightarrow> 'w session_post \<Rightarrow> (string \<Rightarrow> node) \<Rightarrow> config \<Rightarrow> 'w \<Rightarrow>
   (exn + string) \<times> 'w" where
  "perform_search get post html_parser cfg w =
     (case get w (URL cfg) True of
        (Inl e, w1) \<Rightarrow> (Inl e, w1)
      | (Inr r, w1) \<Rightarrow>
          (case raise_for_status r of
             Some e \<Rightarrow> (Inl e, w1)
           | None \<Rightarrow>
               (case get_hidden_inputs (html_parser (resp_text r)) of
                  Inl e \<Rightarrow> (Inl e, w1)
                | Inr hidden_inputs \<Rightarrow>
                    (case build_search_payload cfg hidden_inputs of
                       Inl e \<Rightarrow> (Inl e, w1)
                     | Inr payload \<Rightarrow>
                         (case post w1 (URL cfg) payload False of
                            (Inl e, w2) \<Rightarrow> (Inl e, w2)
                          | (Inr post_resp, w2) \<Rightarrow>
                              if status_code post_resp \<notin> {302, 200}
                              then (Inl (unexpected_post_status (status_code post_resp)), w2)
                              else follow_redirects get w2 post_resp)))))"


section \<open>VHSBerlinScout in the loop\<close>

text \<open>
  \<open>parse_results\<close> has no \<open>raise\<close>: as the hook of the loop it always returns its
  dict.
\<close>

definition parse_hook :: "(string \<Rightarrow> node) \<Rightarrow> string \<Rightarrow> exn + parsed" where
  "parse_hook html_parser html_text = Inr (parse_results html_parser html_text)"

text \<open>Counting the events of a trace.\<close>

fun is_search :: "event \<Rightarrow> bool" where
  "is_search PerformSearch = True"
| "is_search _ = False"

fun is_error_notification :: "event \<Rightarrow> bool" where
  "is_error_notification (Notify m) = prefix (warning_sign @ '' Error during search'') m"
| "is_error_notification _ = False"

fun is_log_or_notify :: "event \<Rightarrow> bool" where
  "is_log_or_notify (Log m) = True"
| "is_log_or_notify (Notify m) = True"
| "is_log_or_notify _ = False"

fun is_handle_success :: "event \<Rightarrow> bool" where
  "is_handle_success (HandleSuccess n r) = True"
| "is_handle_success _ = False"

definition count_events :: "(event \<Rightarrow> bool) \<Rightarrow> event list \<Rightarrow> nat" where
  "count_events P tr = length (filter P tr)"

section \<open>Example pages and stubs\<close>

text \<open>Example pages, each with its tree, and a parser stub that maps the one to the other.\<close>

definition markup_no_results :: string where
  "markup_no_results =
     ''<span id=ctl00_Content_ErrorMessage1_lblError>Zu Ihrer Suche wurden keine Kurse gefunden.</span>''"

definition soup_no_results :: node where
  "soup_no_results =
     Tag ''[document]'' [] []
       [Tag ''span'' [(''id'', ''ctl00_Content_ErrorMessage1_lblError'')] []
          [NavigableString ''Zu Ihrer Suche wurden keine Kurse gefunden.'']]"

definition markup_unrecognized :: string where
  "markup_unrecognized = ''<span id=ctl00_Content_lblTitle>Wartungsarbeiten</span>''"

definition soup_unrecognized :: node where
  "soup_unrecognized =
     Tag ''[document]'' [] []
       [Tag ''span'' [(''id'', ''ctl00_Content_lblTitle'')] []
          [NavigableString ''Wartungsarbeiten'']]"

definition markup_empty_list :: string where
  "markup_empty_list = ''<span id=ctl00_Content_lblTitle>Kursliste</span>''"

definition soup_empty_list :: node where
  "soup_empty_list =
     Tag ''[document]'' [] []
       [Tag ''span'' [(''id'', ''ctl00_Content_lblTitle'')] [] [NavigableString ''Kursliste'']]"

definition markup_results :: string where
  "markup_results =
     ''<span id=ctl00_Content_lblTitle>Kursliste</span>'' @
     ''<span id=ctl00_Content_lblMessage1All> Es wurden 12 Kurse gefunden (Seite 1) </span>'' @
     ''<table id=ctl00_Content_ILDataGrid1>'' @
     ''<tr class=DataGridHeader><td>Bezirk</td></tr>'' @
     ''<tr class=DataGridItem><td class=DataGridItemDistrict> Mitte </td>'' @
     ''<td class=DataGridItemCourseTitle>Deutsch A1</td>'' @
     ''<td class=DataGridItemPlaces>3</td></tr>'' @
     ''<tr class=DataGridItem><td class=DataGridItemCourseTitle>Deutsch B2</td></tr>'' @
     ''</table>''"

definition row_full :: node where
  "row_full =
     Tag ''tr'' [] [''DataGridItem'']
       [Tag ''td'' [] [''DataGridItemDistrict''] [NavigableString '' Mitte ''],
        Tag ''td'' [] [''DataGridItemCourseTitle''] [NavigableString ''Deutsch A1''],
        Tag ''td'' [] [''DataGridItemPlaces''] [NavigableString ''3'']]"

definition row_title_only :: node where
  "row_title_only =
     Tag ''tr'' [] [''DataGridItem'']
       [Tag ''td'' [] [''DataGridItemCourseTitle''] [NavigableString ''Deutsch B2'']]"

definition soup_results :: node where
  "soup_results =
     Tag ''[document]'' [] []
       [Tag ''span'' [(''id'', ''ctl00_Content_lblTitle'')] [] [NavigableString ''Kursliste''],
        Tag ''span'' [(''id'', ''ctl00_Content_lblMessage1All'')] []
          [NavigableString '' Es wurden 12 Kurse gefunden (Seite 1) ''],
        Tag ''table'' [(''id'', ''ctl00_Content_ILDataGrid1'')] []
          [Tag ''tr'' [] [''DataGridHeader''] [Tag ''td'' [] [] [NavigableString ''Bezirk'']],
           row_full,
           row_title_only]]"

definition markup_form :: string where
  "markup_form = ''<form><input name=__VIEWSTATE value=dDwtMTA4></form>''"

definition soup_form :: node where
  "soup_form =
     Tag ''[document]'' [] []
       [Tag ''form'' [] []
          [Tag ''input'' [(''name'', ''__VIEWSTATE''), (''value'', ''dDwtMTA4'')] [] []]]"

definition example_parser :: "string \<Rightarrow> node" where
  "example_parser html_text =
     (if html_text = markup_no_results then soup_no_results
      else if html_text = markup_unrecognized then soup_unrecognized
      else if html_text = markup_empty_list then soup_empty_list
      else if html_text = markup_results then soup_results
      else if html_text = markup_form then soup_form
      else Tag ''[document]'' [] [] [NavigableString html_text])"

text \<open>
  Stubs of \<open>perform_search\<close>; the world is the number of searches made so far. The first
  fails twice and then returns the page with results.
\<close>

definition stub_fail_twice :: "nat \<Rightarrow> (exn + string) \<times> nat" where
  "stub_fail_twice w =
     (if w < 2 then (Inl (RequestException ''Connection refused''), w + 1)
      else (Inr markup_results, w + 1))"

definition stub_no_results :: "nat \<Rightarrow> (exn + string) \<times> nat" where
  "stub_no_results w = (Inr markup_no_results, w + 1)"


text \<open>A stub of the session; the world is the number of requests made so far.\<close>

definition example_config :: config where
  "example_config =
     \<lparr>URL = ''https://www.vhsit.berlin.de/search'', KEYWORD_SELECTION_VALUE = ''42''\<rparr>"

definition example_response :: "int \<Rightarrow> string \<Rightarrow> string option \<Rightarrow> response" where
  "example_response code body loc =
     \<lparr>status_code = code, resp_text = body, location = loc, reason = ''-'',
      resp_url = ''https://www.vhsit.berlin.de''\<rparr>"

definition example_get :: "nat session_get" where
  "example_get w url allow_redirects =
     (if url = ''https://www.vhsit.berlin.de/search''
      then (Inr (example_response 200 markup_form None), w + 1)
      else if (url = base_origin @ ''/a'' \<or> url = base_origin) \<and> \<not> allow_redirects
      then (Inr (example_response 302 ''moved to b'' (Some ''/b'')), w + 1)
      else if url = base_origin @ ''/b'' \<and> allow_redirects
      then (Inr (example_response 200 markup_results None), w + 1)
      else (Inr (example_response 404 ''not found'' None), w + 1))"

definition example_post :: "nat session_post" where
  "example_post w url payload allow_redirects =
     (Inr (example_response 302 ''moved to a'' (Some ''/a'')), w + 1)"

definition example_post_500 :: "nat session_post" where
  "example_post_500 w url payload allow_redirects =
     (Inr (example_response 500 ''error'' None), w + 1)"


section \<open>Decimal conversion and the run-number store\<close>

























section \<open>The jittered delay\<close>

text \<open>
  Claim C8 as stated fails for a negative base: for \<open>B = -10\<close> the delay is 0, which is
  above \<open>1.3 * B = -13\<close>.
\<close>

theorem random_delay_negative_base_counterexample:
  "\<not> (max 0 (7 / 10 * (- 10)) \<le> random_delay (- 10) (1 / 2) \<and>
      random_delay (- 10) (1 / 2) \<le> 13 / 10 * (- 10))"
  by (simp add: random_delay_def uniform_def)

lemma random_delay_eq: "random_delay B u = max 0 (7 / 10 * B + 6 / 10 * (B * u))"
  by (simp add: random_delay_def uniform_def Let_def algebra_simps)

text \<open>
  Claim C8, amended. For a base \<open>B \<ge> 0\<close> and every draw the jittered delay lies in
  \<open>[max(0, 0.7 B), 1.3 B]\<close>; for a base \<open>B < 0\<close> the floor makes it 0.
\<close>

theorem random_delay_bounds:
  assumes "0 \<le> u" and "u \<le> 1"
  shows "(0 \<le> B \<longrightarrow> max 0 (7 / 10 * B) \<le> random_delay B u \<and> random_delay B u \<le> 13 / 10 * B) \<and>
         (B < 0 \<longrightarrow> random_delay B u = 0)"
proof (intro conjI impI)
  assume B: "0 \<le> B"
  have lo: "0 \<le> B * u" using B assms by simp
  have hi: "B * u \<le> B" using B assms by (simp add: mult_left_le)
  show "max 0 (7 / 10 * B) \<le> random_delay B u"
    unfolding random_delay_eq using B lo by (simp add: max_def)
  show "random_delay B u \<le> 13 / 10 * B"
    unfolding random_delay_eq using B hi by (simp add: max_def)
next
  assume B: "B < 0"
  have "B * u \<le> 0"
    using B assms by (simp add: mult_nonpos_nonneg)
  then show "random_delay B u = 0"
    unfolding random_delay_eq using B by (simp add: max_def)
qed

text \<open>
  The bounds at \<open>B = 10\<close> and \<open>B = -10\<close> with the draw \<open>1/4\<close>.
\<close>

theorem random_delay_bounds_witness:
  "(0::real) \<le> 1 / 4 \<and> (1 / 4 :: real) \<le> 1 \<and>
   random_delay 10 (1 / 4) = 17 / 2 \<and>
   max 0 (7 / 10 * 10) \<le> random_delay 10 (1 / 4) \<and> random_delay 10 (1 / 4) \<le> 13 / 10 * 10 \<and>
   random_delay (- 10) (1 / 4) = 0"
proof -
  have a: "(0::real) \<le> 1 / 4" and b: "(1 / 4 :: real) \<le> 1" by simp_all
  have v: "random_delay 10 (1 / 4) = 17 / 2"
    by (simp add: random_delay_def uniform_def)
  show ?thesis
    using random_delay_bounds [OF a b, of 10] random_delay_bounds [OF a b, of "- 10"] v
    by simp
qed

section \<open>Properties of parse_results\<close>

lemma markup_distinct:
  "markup_no_results \<noteq> markup_unrecognized"
  "markup_unrecognized \<noteq> markup_no_results"
  "markup_empty_list \<noteq> markup_no_results"
  "markup_empty_list \<noteq> markup_unrecognized"
  "markup_results \<noteq> markup_no_results"
  "markup_results \<noteq> markup_unrecognized"
  "markup_results \<noteq> markup_empty_list"
  by (simp_all add: markup_no_results_def markup_unrecognized_def markup_empty_list_def
      markup_results_def)

lemma example_parser_simps:
  "example_parser markup_no_results = soup_no_results"
  "example_parser markup_unrecognized = soup_unrecognized"
  "example_parser markup_empty_list = soup_empty_list"
  "example_parser markup_results = soup_results"
  by (simp_all add: example_parser_def markup_distinct)

lemma soup_no_results_facts:
  "has_no_courses_message soup_no_results"
  by (simp add: has_no_courses_message_def soup_no_results_def select_one_id_def
      no_courses_message_def)

lemma soup_unrecognized_facts:
  "\<not> has_no_courses_message soup_unrecognized" "lacks_list_title soup_unrecognized"
  by (simp_all add: has_no_courses_message_def lacks_list_title_def soup_unrecognized_def
      select_one_id_def)



lemma parse_results_failed:
  "has_no_courses_message (html_parser html_text) \<or> lacks_list_title (html_parser html_text) \<Longrightarrow>
   parse_results html_parser html_text = [(''success'', PBool False), (''has_courses'', PBool False)]"
  by (auto simp: parse_results_def Let_def)


text \<open>
  Claim C1 as stated fails: the page with the no-results message and a page whose title
  lacks the marker get equal values from \<open>parse_results\<close>.
\<close>

theorem unrecognized_equals_no_results_counterexample:
  "has_no_courses_message (example_parser markup_no_results) \<and>
   \<not> has_no_courses_message (example_parser markup_unrecognized) \<and>
   lacks_list_title (example_parser markup_unrecognized) \<and>
   parse_results example_parser markup_unrecognized =
     parse_results example_parser markup_no_results"
  by (simp add: example_parser_simps soup_no_results_facts soup_unrecognized_facts
      parse_results_failed)

text \<open>
  Claim C1, amended. For a page with the no-results message and a page without it whose
  title lacks the marker, \<open>parse_results\<close> returns the same dict,
  \<open>{"success": False, "has_courses": False}\<close>; neither is a success.
\<close>

theorem unrecognized_same_as_no_results:
  assumes "has_no_courses_message (html_parser no_results_page)"
    and "\<not> has_no_courses_message (html_parser unrecognized_page)"
    and "lacks_list_title (html_parser unrecognized_page)"
  shows "parse_results html_parser unrecognized_page =
           [(''success'', PBool False), (''has_courses'', PBool False)] \<and>
         parse_results html_parser no_results_page =
           [(''success'', PBool False), (''has_courses'', PBool False)] \<and>
         \<not> get_success (parse_results html_parser unrecognized_page) \<and>
         \<not> get_success (parse_results html_parser no_results_page)"
  using assms by (simp add: parse_results_failed get_success_def)

text \<open>
  The two example pages.
\<close>

theorem unrecognized_same_as_no_results_witness:
  "has_no_courses_message (example_parser markup_no_results) \<and>
   \<not> has_no_courses_message (example_parser markup_unrecognized) \<and>
   lacks_list_title (example_parser markup_unrecognized) \<and>
   parse_results example_parser markup_unrecognized =
     [(''success'', PBool False), (''has_courses'', PBool False)] \<and>
   parse_results example_parser markup_no_results =
     [(''success'', PBool False), (''has_courses'', PBool False)]"
proof -
  have a: "has_no_courses_message (example_parser markup_no_results)"
    by (simp add: example_parser_simps soup_no_results_facts)
  have b: "\<not> has_no_courses_message (example_parser markup_unrecognized)"
    by (simp add: example_parser_simps soup_unrecognized_facts)
  have c: "lacks_list_title (example_parser markup_unrecognized)"
    by (simp add: example_parser_simps soup_unrecognized_facts)
  show ?thesis
    using unrecognized_same_as_no_results [OF a b c] a b c by simp
qed
















section \<open>Properties of the polling loop\<close>

lemma get_success_nonempty: "get_success parsed \<Longrightarrow> parsed \<noteq> []"
  by (auto simp: get_success_def)

lemma search_loop_raise:
  assumes "int attempt < max_attempts" and "try_attempt search parse w = (Inl e, w')"
  shows "search_loop search parse max_attempts short_wait attempt None w tr =
         search_loop search parse max_attempts short_wait (attempt + 1) None w'
           (tr @ [PerformSearch, Log (error_msg (attempt + 1) e),
                  Notify (error_notification (attempt + 1) e), Sleep short_wait])"
  using assms
  by (subst search_loop.simps) (simp add: truthy_results_def)

lemma search_loop_negative:
  assumes "int attempt < max_attempts" and "try_attempt search parse w = (Inr parsed, w')"
    and "\<not> get_success parsed"
  shows "search_loop search parse max_attempts short_wait attempt None w tr =
         search_loop search parse max_attempts short_wait (attempt + 1) None w'
           (tr @ [PerformSearch, Sleep short_wait])"
  using assms
  by (subst search_loop.simps) (simp add: truthy_results_def)

lemma search_loop_success:
  assumes "int attempt < max_attempts" and "try_attempt search parse w = (Inr parsed, w')"
    and "get_success parsed"
  shows "search_loop search parse max_attempts short_wait attempt None w tr =
         (Some parsed, attempt + 1, w', tr @ [PerformSearch])"
  using assms
  by (subst search_loop.simps) (simp add: truthy_results_def)

lemma search_loop_exhausted:
  assumes "\<not> int attempt < max_attempts"
  shows "search_loop search parse max_attempts short_wait attempt results w tr =
         (results, attempt, w, tr)"
  using assms
  by (subst search_loop.simps) simp

lemma run_once_success:
  assumes "search_loop search parse max_attempts short_wait 0 None w
             (tr @ [Log (start_message (n + 1)), Notify (start_message (n + 1))]) =
           (Some parsed, attempt, w', tr')"
    and "get_success parsed"
  shows "run_once search parse max_attempts short_wait long_wait (n, fs, w, tr) =
         (n + 1, save_run_number (n + 1) run_number_txt fs, w',
          tr' @ [HandleSuccess (n + 1) parsed, Sleep long_wait])"
  using assms get_success_nonempty [of parsed]
  by (simp add: run_once_def Let_def)

lemma error_notification_prefix:
  "prefix (warning_sign @ '' Error during search'') (error_notification k e)"
  "\<not> prefix (warning_sign @ '' Error during search'') (start_message n)"
  by (simp_all add: error_notification_def start_message_def warning_sign_def rocket_def)

text \<open>
  Claim C2 as stated fails for a negative outcome: with the stub that always returns the
  no-results page and one attempt allowed, the attempt is followed by the sleep alone;
  \<open>run\<close> logs nothing and notifies nothing about the outcome.
\<close>

theorem negative_outcome_not_notified_counterexample:
  "\<not> get_success (parse_results example_parser markup_no_results) \<and>
   search_loop stub_no_results (parse_hook example_parser) 1 60 0 None 0 [] =
     (None, 1, 1, [PerformSearch, Sleep 60]) \<and>
   count_events is_log_or_notify [PerformSearch, Sleep 60] = 0"
proof -
  have p: "parse_results example_parser markup_no_results =
             [(''success'', PBool False), (''has_courses'', PBool False)]"
    by (simp add: parse_results_failed example_parser_simps soup_no_results_facts)
  have g: "\<not> get_success (parse_results example_parser markup_no_results)"
    by (simp add: p get_success_def)
  have t: "try_attempt stub_no_results (parse_hook example_parser) 0 =
             (Inr (parse_results example_parser markup_no_results), 1)"
    by (simp add: try_attempt_def stub_no_results_def parse_hook_def)
  have "search_loop stub_no_results (parse_hook example_parser) 1 60 0 None 0 [] =
        search_loop stub_no_results (parse_hook example_parser) 1 60 (0 + 1) None 1
          ([] @ [PerformSearch, Sleep 60])"
    by (rule search_loop_negative [OF _ t g]) simp
  also have "\<dots> = (None, 1, 1, [PerformSearch, Sleep 60])"
    by (simp add: search_loop_exhausted)
  finally show ?thesis using g by (simp add: count_events_def)
qed

text \<open>
  Claim C2, amended. In every attempt of a run the counter is incremented first. An attempt
  that raised (in the search or in the parse) is logged and notified with the error and
  its number, and then the loop sleeps the short delay. An attempt that returned an outcome
  without success is followed by the sleep only.
\<close>

theorem failed_attempt_step:
  assumes "int attempt < max_attempts"
  shows "(\<forall>e w'. try_attempt search parse w = (Inl e, w') \<longrightarrow>
            search_loop search parse max_attempts short_wait attempt None w tr =
            search_loop search parse max_attempts short_wait (attempt + 1) None w'
              (tr @ [PerformSearch, Log (error_msg (attempt + 1) e),
                     Notify (error_notification (attempt + 1) e), Sleep short_wait])) \<and>
         (\<forall>parsed w'. try_attempt search parse w = (Inr parsed, w') \<and> \<not> get_success parsed \<longrightarrow>
            search_loop search parse max_attempts short_wait attempt None w tr =
            search_loop search parse max_attempts short_wait (attempt + 1) None w'
              (tr @ [PerformSearch, Sleep short_wait]))"
  using assms by (simp add: search_loop_raise search_loop_negative)

text \<open>The stub that fails twice: its first attempt is logged and notified.\<close>

theorem failed_attempt_step_witness:
  "int 0 < 5 \<and>
   try_attempt stub_fail_twice (parse_hook example_parser) 0 =
     (Inl (RequestException ''Connection refused''), 1) \<and>
   search_loop stub_fail_twice (parse_hook example_parser) 5 60 0 None 0 [] =
   search_loop stub_fail_twice (parse_hook example_parser) 5 60 1 None 1
     [PerformSearch,
      Log (error_msg 1 (RequestException ''Connection refused'')),
      Notify (error_notification 1 (RequestException ''Connection refused'')),
      Sleep 60]"
proof -
  have h: "int 0 < 5" by simp
  have t: "try_attempt stub_fail_twice (parse_hook example_parser) 0 =
             (Inl (RequestException ''Connection refused''), 1)"
    by (simp add: try_attempt_def stub_fail_twice_def)
  show ?thesis
    using failed_attempt_step [OF h, where search = stub_fail_twice and parse = "parse_hook example_parser" and w = 0 and short_wait = 60 and tr = "[]"] t
    by simp
qed

text \<open>
  Claim C3. With five attempts allowed, a search that raises on attempts 1 and 2 and a
  parse that succeeds on attempt 3: the run makes exactly 3 searches, sends exactly 2
  error notifications, calls the success handler once and leaves the loop with the
  attempt counter at 3.
\<close>

theorem fail_twice_then_success:
  assumes "search w0 = (Inl e1, w1)"
    and "search w1 = (Inl e2, w2)"
    and "search w2 = (Inr content, w3)"
    and "parse content = Inr parsed"
    and "get_success parsed"
  shows "search_loop search parse 5 short_wait 0 None w0 [] =
           (Some parsed, 3, w3,
            [PerformSearch, Log (error_msg 1 e1), Notify (error_notification 1 e1),
             Sleep short_wait,
             PerformSearch, Log (error_msg 2 e2), Notify (error_notification 2 e2),
             Sleep short_wait,
             PerformSearch]) \<and>
         run_once search parse 5 short_wait long_wait (n, fs, w0, []) =
           (n + 1, save_run_number (n + 1) run_number_txt fs, w3,
            [Log (start_message (n + 1)), Notify (start_message (n + 1)),
             PerformSearch, Log (error_msg 1 e1), Notify (error_notification 1 e1),
             Sleep short_wait,
             PerformSearch, Log (error_msg 2 e2), Notify (error_notification 2 e2),
             Sleep short_wait,
             PerformSearch,
             HandleSuccess (n + 1) parsed, Sleep long_wait]) \<and>
         (case run_once search parse 5 short_wait long_wait (n, fs, w0, []) of
            (run_number, fs', w', tr) \<Rightarrow>
              count_events is_search tr = 3 \<and>
              count_events is_error_notification tr = 2 \<and>
              count_events is_handle_success tr = 1)"
proof -
  have t1: "try_attempt search parse w0 = (Inl e1, w1)"
    and t2: "try_attempt search parse w1 = (Inl e2, w2)"
    and t3: "try_attempt search parse w2 = (Inr parsed, w3)"
    using assms by (simp_all add: try_attempt_def)
  have loop: "search_loop search parse 5 short_wait 0 None w0 tr =
           (Some parsed, 3, w3,
            tr @ [PerformSearch, Log (error_msg 1 e1), Notify (error_notification 1 e1),
             Sleep short_wait,
             PerformSearch, Log (error_msg 2 e2), Notify (error_notification 2 e2),
             Sleep short_wait,
             PerformSearch])" for tr
  proof -
    have "search_loop search parse 5 short_wait 0 None w0 tr =
          search_loop search parse 5 short_wait 1 None w1
            (tr @ [PerformSearch, Log (error_msg 1 e1), Notify (error_notification 1 e1),
                   Sleep short_wait])"
      by (simp add: search_loop_raise [OF _ t1])
    also have "\<dots> =
          search_loop search parse 5 short_wait 2 None w2
            (tr @ [PerformSearch, Log (error_msg 1 e1), Notify (error_notification 1 e1),
                   Sleep short_wait,
                   PerformSearch, Log (error_msg 2 e2), Notify (error_notification 2 e2),
                   Sleep short_wait])"
      by (simp add: search_loop_raise [OF _ t2] numeral_2_eq_2)
    also have "\<dots> =
          (Some parsed, 3, w3,
            tr @ [PerformSearch, Log (error_msg 1 e1), Notify (error_notification 1 e1),
             Sleep short_wait,
             PerformSearch, Log (error_msg 2 e2), Notify (error_notification 2 e2),
             Sleep short_wait,
             PerformSearch])"
      by (simp add: search_loop_success [OF _ t3 assms(5)] numeral_2_eq_2 numeral_3_eq_3)
    finally show ?thesis .
  qed
  have r: "run_once search parse 5 short_wait long_wait (n, fs, w0, []) =
           (n + 1, save_run_number (n + 1) run_number_txt fs, w3,
            [Log (start_message (n + 1)), Notify (start_message (n + 1)),
             PerformSearch, Log (error_msg 1 e1), Notify (error_notification 1 e1),
             Sleep short_wait,
             PerformSearch, Log (error_msg 2 e2), Notify (error_notification 2 e2),
             Sleep short_wait,
             PerformSearch,
             HandleSuccess (n + 1) parsed, Sleep long_wait])"
    using run_once_success [OF loop assms(5), where tr = "[]" and n = n and long_wait = long_wait and fs = fs] by simp
  show ?thesis
    using loop [of "[]"] r
    by (simp add: count_events_def error_notification_prefix)
qed

lemma parse_results_example:
  "parse_results example_parser markup_results =
     [(''success'', PBool True), (''has_courses'', PBool True),
      (''course_count'', PInt 12),
      (''courses'',
       PCourses
        [[(''district'', ''Mitte''), (''course_title'', ''Deutsch A1''),
          (''free_places'', ''3'')],
         [(''district'', ''N/A''), (''course_title'', ''Deutsch B2''),
          (''free_places'', ''N/A'')]])]"
  by code_simp

text \<open>The stub that fails twice and then returns the example page with results.\<close>

theorem fail_twice_then_success_witness:
  "stub_fail_twice 0 = (Inl (RequestException ''Connection refused''), 1) \<and>
   stub_fail_twice 1 = (Inl (RequestException ''Connection refused''), 2) \<and>
   stub_fail_twice 2 = (Inr markup_results, 3) \<and>
   get_success (parse_results example_parser markup_results) \<and>
   search_loop stub_fail_twice (parse_hook example_parser) 5 60 0 None 0 [] =
     (Some (parse_results example_parser markup_results), 3, 3,
      [PerformSearch,
       Log (error_msg 1 (RequestException ''Connection refused'')),
       Notify (error_notification 1 (RequestException ''Connection refused'')),
       Sleep 60,
       PerformSearch,
       Log (error_msg 2 (RequestException ''Connection refused'')),
       Notify (error_notification 2 (RequestException ''Connection refused'')),
       Sleep 60,
       PerformSearch])"
proof -
  have s0: "stub_fail_twice 0 = (Inl (RequestException ''Connection refused''), 1)"
    and s1: "stub_fail_twice 1 = (Inl (RequestException ''Connection refused''), 2)"
    and s2: "stub_fail_twice 2 = (Inr markup_results, 3)"
    by (simp_all add: stub_fail_twice_def)
  have p: "parse_hook example_parser markup_results =
             Inr (parse_results example_parser markup_results)"
    by (simp add: parse_hook_def)
  have g: "get_success (parse_results example_parser markup_results)"
    by (simp add: parse_results_example get_success_def)
  show ?thesis
    using fail_twice_then_success
      [where search = stub_fail_twice and parse = "parse_hook example_parser"
         and ?w0.0 = 0 and ?w1.0 = 1 and ?w2.0 = 2 and ?w3.0 = 3
         and content = markup_results and short_wait = 60,
       OF s0 s1 s2 p g] s0 s1 s2 g
    by simp
qed



section \<open>Properties of perform_search\<close>

lemma py_in_refl: "py_in sub sub"
  by (cases sub) simp_all

lemma py_in_suffix: "py_in sub (pre @ sub)"
  by (induction pre) (simp_all add: py_in_refl)

lemma hidden_inputs_loop_keys:
  "hidden_inputs_loop soup names inputs = Inr h \<Longrightarrow> map fst h = map fst inputs @ names"
  by (induction soup names inputs rule: hidden_inputs_loop.induct)
     (auto split: option.splits sum.splits)

lemma lookup_keys_total:
  "set ks \<subseteq> fst ` set d \<Longrightarrow> \<exists>kvs. lookup_keys d ks = Inr kvs"
proof (induction ks)
  case Nil
  then show ?case by simp
next
  case (Cons k ks)
  then obtain v where "map_of d k = Some v"
    by (cases "map_of d k") (auto simp: map_of_eq_None_iff)
  moreover from Cons obtain kvs where "lookup_keys d ks = Inr kvs" by auto
  ultimately show ?case by simp
qed

lemma build_search_payload_total:
  assumes "get_hidden_inputs soup = Inr hidden_inputs"
  shows "\<exists>payload. build_search_payload cfg hidden_inputs = Inr payload"
proof -
  have "map fst hidden_inputs = hidden_input_names"
    using hidden_inputs_loop_keys [of soup hidden_input_names "[]" hidden_inputs] assms
    by (simp add: get_hidden_inputs_def)
  then have "fst ` set hidden_inputs = set hidden_input_names"
    by (metis set_map)
  then have "set [''__LASTFOCUS'', ''__EVENTTARGET'', ''__EVENTARGUMENT'', ''__VIEWSTATE'',
              ''__VIEWSTATEGENERATOR'', ''__SCROLLPOSITIONX'', ''__SCROLLPOSITIONY'']
             \<subseteq> fst ` set hidden_inputs"
    by (simp add: hidden_input_names_def)
  from lookup_keys_total [OF this] show ?thesis
    by (auto simp: build_search_payload_def)
qed

text \<open>
  Claim C5. Once the form page has been fetched and the payload built, the status of the
  POST decides: with 200 or 302 the search goes on to the redirect resolution, with any
  other status it raises an exception whose message ends with that status.
\<close>

theorem post_status_gate:
  assumes "get w (URL cfg) True = (Inr r, w1)"
    and "raise_for_status r = None"
    and "get_hidden_inputs (html_parser (resp_text r)) = Inr hidden_inputs"
    and "build_search_payload cfg hidden_inputs = Inr payload"
    and "post w1 (URL cfg) payload False = (Inr post_resp, w2)"
  shows "(status_code post_resp = 200 \<or> status_code post_resp = 302 \<longrightarrow>
            perform_search get post html_parser cfg w = follow_redirects get w2 post_resp) \<and>
         (status_code post_resp \<noteq> 200 \<and> status_code post_resp \<noteq> 302 \<longrightarrow>
            perform_search get post html_parser cfg w =
              (Inl (Exception (''Unexpected POST response status: '' @
                               py_str_int (status_code post_resp))), w2) \<and>
            py_in (py_str_int (status_code post_resp))
              (py_str_exn (Exception (''Unexpected POST response status: '' @
                                      py_str_int (status_code post_resp)))))"
proof (intro conjI impI)
  assume "status_code post_resp = 200 \<or> status_code post_resp = 302"
  with assms show "perform_search get post html_parser cfg w = follow_redirects get w2 post_resp"
    by (auto simp: perform_search_def)
next
  assume "status_code post_resp \<noteq> 200 \<and> status_code post_resp \<noteq> 302"
  with assms show "perform_search get post html_parser cfg w =
              (Inl (Exception (''Unexpected POST response status: '' @
                               py_str_int (status_code post_resp))), w2)"
    by (simp add: perform_search_def unexpected_post_status_def)
next
  show "py_in (py_str_int (status_code post_resp))
              (py_str_exn (Exception (''Unexpected POST response status: '' @
                                      py_str_int (status_code post_resp))))"
    by (simp only: py_str_exn.simps py_in_suffix)
qed

lemma example_form_hidden_inputs:
  "get_hidden_inputs (example_parser markup_form) =
     Inr [(''__VIEWSTATE'', ''dDwtMTA4''), (''__VIEWSTATEGENERATOR'', []),
          (''__LASTFOCUS'', []), (''__EVENTTARGET'', []), (''__EVENTARGUMENT'', []),
          (''__SCROLLPOSITIONX'', []), (''__SCROLLPOSITIONY'', [])]"
  by code_simp

text \<open>The session stub whose POST answers 500.\<close>

theorem post_status_gate_witness:
  "example_get 0 (URL example_config) True = (Inr (example_response 200 markup_form None), 1) \<and>
   raise_for_status (example_response 200 markup_form None) = None \<and>
   status_code (example_response 500 ''error'' None) \<noteq> 200 \<and>
   status_code (example_response 500 ''error'' None) \<noteq> 302 \<and>
   perform_search example_get example_post_500 example_parser example_config 0 =
     (Inl (Exception ''Unexpected POST response status: 500''), 2)"
proof -
  let ?r = "example_response 200 markup_form None"
  let ?p = "example_response 500 ''error'' None"
  have g: "example_get 0 (URL example_config) True = (Inr ?r, 1)"
    by (simp add: example_get_def example_config_def)
  have rs: "raise_for_status ?r = None"
    by (simp add: raise_for_status_def example_response_def)
  have t: "resp_text ?r = markup_form"
    by (simp add: example_response_def)
  have h: "get_hidden_inputs (example_parser (resp_text ?r)) =
     Inr [(''__VIEWSTATE'', ''dDwtMTA4''), (''__VIEWSTATEGENERATOR'', []),
          (''__LASTFOCUS'', []), (''__EVENTTARGET'', []), (''__EVENTARGUMENT'', []),
          (''__SCROLLPOSITIONX'', []), (''__SCROLLPOSITIONY'', [])]"
    by (simp only: t example_form_hidden_inputs)
  from build_search_payload_total [OF h, of example_config]
  obtain payload where
    b: "build_search_payload example_config
          [(''__VIEWSTATE'', ''dDwtMTA4''), (''__VIEWSTATEGENERATOR'', []),
           (''__LASTFOCUS'', []), (''__EVENTTARGET'', []), (''__EVENTARGUMENT'', []),
           (''__SCROLLPOSITIONX'', []), (''__SCROLLPOSITIONY'', [])] = Inr payload"
    by blast
  have p: "example_post_500 1 (URL example_config) payload False = (Inr ?p, 2)"
    by (simp add: example_post_500_def)
  have st: "status_code ?p = 500"
    by (simp add: example_response_def)
  have str: "py_str_int 500 = ''500''" by code_simp
  show ?thesis
    using post_status_gate
      [where get = example_get and post = example_post_500 and w = 0 and ?w1.0 = 1
         and ?w2.0 = 2 and html_parser = example_parser and cfg = example_config,
       OF g rs h b p] g rs st str
    by simp
qed




end
